theory Spec2Isabelle
  imports Complex_Main "HOL-Library.Sublist" "HOL-Library.AList"
begin

section \<open>VirtualScroll: the list windower\<close>

text \<open>
  Source: \<^verbatim>\<open>src/src/core/utils/components/VirtualScroll.tsx\<close>.
  Pixel quantities (heights, margins, scroll offsets) are JavaScript numbers; they are
  modelled as finite reals, so \<^verbatim>\<open>NaN\<close> and the infinities are outside the model.
  Item counts, buffer sizes and indices are integers. \<^verbatim>\<open>Math.floor\<close> is the floor
  function, \<^verbatim>\<open>!childHeight\<close> is the test for zero.
\<close>

subsection \<open>DOM measurements\<close>

text \<open>
  What the windower reads of an element: the height of its bounding rectangle and its
  computed top and bottom margins (already parsed by \<^verbatim>\<open>parseFloat\<close>).
\<close>

record element =
  rectHeight :: real
  marginTop :: real
  marginBottom :: real

text \<open>\<^verbatim>\<open>element?.getBoundingClientRect().height ?? 0\<close>\<close>

definition getElementHeight :: "'a element_scheme option \<Rightarrow> real" where
  "getElementHeight element =
     (case element of None \<Rightarrow> 0 | Some e \<Rightarrow> rectHeight e)"

definition getElementHeightWithMargins :: "element option \<Rightarrow> real" where
  "getElementHeightWithMargins element =
     (case element of
        None \<Rightarrow> 0
      | Some e \<Rightarrow>
          (let margin = marginTop e + marginBottom e
           in getElementHeight (Some e) + margin))"

definition getNumberOfNodesInHeight :: "real \<Rightarrow> real \<Rightarrow> int" where
  "getNumberOfNodesInHeight childHeight totalHeight =
     (if childHeight = 0 then 0 else \<lfloor>totalHeight / childHeight\<rfloor>)"

definition getTranslateValue :: "real \<Rightarrow> real \<Rightarrow> int \<Rightarrow> real" where
  "getTranslateValue childHeight firstChildHeight startIndex =
     (if startIndex > 0
      then childHeight * of_int (startIndex - 1) + firstChildHeight
      else 0)"

text \<open>
  The scroll container is an element too; the windower also reads its scroll offset.
\<close>

record container = element +
  scrollTop :: real

definition getVisibleNodeCount :: "real \<Rightarrow> int \<Rightarrow> int \<Rightarrow> container \<Rightarrow> int" where
  "getVisibleNodeCount childHeight startIndex childrenLength scrollContainer =
     min (childrenLength - startIndex)
         (getNumberOfNodesInHeight childHeight (getElementHeight (Some scrollContainer)))"

subsection \<open>Props and state of the component\<close>

record vs_props =
  itemsLength :: int
  bufferSize :: int
  scrollToIndex :: int

text \<open>The \<^verbatim>\<open>childHeight\<close> ref: \<^verbatim>\<open>{ firstChild, child, lastChild }\<close>.\<close>

record child_height =
  firstChild :: real
  child :: real
  lastChild :: real

text \<open>
  The two \<^verbatim>\<open>useState\<close> cells, the \<^verbatim>\<open>childHeight\<close> ref, the scroll container ref
  (\<open>None\<close> while no container is known), whether \<^verbatim>\<open>parentRef.current\<close> is set, and
  the \<^verbatim>\<open>translateY\<close> written to the wrapper's style.
\<close>

record vs_state =
  startNode :: int
  visibleNodeCount :: int
  childHeight :: child_height
  scrollContainer :: "container option"
  parentAttached :: bool
  translateY :: real

definition vs_init :: "container option \<Rightarrow> vs_state" where
  "vs_init c =
     \<lparr>startNode = 0, visibleNodeCount = 0,
      childHeight = \<lparr>firstChild = 0, child = 0, lastChild = 0\<rparr>,
      scrollContainer = c, parentAttached = True, translateY = 0\<rparr>"

text \<open>
  \<^verbatim>\<open>visibleChildren\<close>: the indices handed to \<^verbatim>\<open>itemRenderer\<close>, in order; the loop
  \<^verbatim>\<open>for (let i = startNode; i < endIndex; i++)\<close>.
\<close>

definition endIndex :: "vs_props \<Rightarrow> vs_state \<Rightarrow> int" where
  "endIndex p st =
     min (itemsLength p) (startNode st + visibleNodeCount st + bufferSize p * 2)"

definition visibleChildren :: "vs_props \<Rightarrow> vs_state \<Rightarrow> int list" where
  "visibleChildren p st = [startNode st..endIndex p st - 1]"

text \<open>
  \<^verbatim>\<open>updateVirtualScroll(scrollTop?)\<close>. The state's container stands for
  \<^verbatim>\<open>scrollContainer.current ?? ownerDocument.scrollingElement\<close>; without one nothing
  changes. The final programmatic \<^verbatim>\<open>scrollTo\<close> acts on the document only and is not
  part of the model.
\<close>

definition updateVirtualScroll :: "vs_props \<Rightarrow> real option \<Rightarrow> vs_state \<Rightarrow> vs_state" where
  "updateVirtualScroll p scrollTopArg st =
     (case scrollContainer st of
        None \<Rightarrow> st
      | Some scrollableContainer \<Rightarrow>
          (let start = getNumberOfNodesInHeight (child (childHeight st))
                         (case scrollTopArg of
                            Some t \<Rightarrow> t
                          | None \<Rightarrow> scrollTop scrollableContainer);
               startIndex = max 0 (start - bufferSize p);
               st' = st\<lparr>startNode := startIndex,
                        visibleNodeCount :=
                          getVisibleNodeCount (child (childHeight st)) start
                            (itemsLength p) scrollableContainer\<rparr>
           in if \<not> parentAttached st then st'
              else st'\<lparr>translateY :=
                         getTranslateValue (child (childHeight st))
                           (firstChild (childHeight st)) startIndex\<rparr>))"

text \<open>The scroll listener: \<^verbatim>\<open>updateVirtualScroll()\<close> with no argument.\<close>

definition onScroll :: "vs_props \<Rightarrow> vs_state \<Rightarrow> vs_state" where
  "onScroll p st = updateVirtualScroll p None st"



subsection \<open>Measuring the rows\<close>

text \<open>
  \<^verbatim>\<open>children.item(i)\<close> is \<^verbatim>\<open>null\<close> out of range (and so is an array read
  \<^verbatim>\<open>xs[i]\<close>, which is \<^verbatim>\<open>undefined\<close> there). \<^verbatim>\<open>x.toFixed(2)\<close> read back by
  \<^verbatim>\<open>Number\<close> rounds to two decimals, halves away from zero.
\<close>

definition item :: "'a list \<Rightarrow> int \<Rightarrow> 'a option" where
  "item xs i = (if 0 \<le> i \<and> i < int (length xs) then Some (xs ! nat i) else None)"

definition toFixed2 :: "real \<Rightarrow> real" where
  "toFixed2 x =
     (if x < 0 then - (of_int \<lfloor>(- x) * 100 + 1 / 2\<rfloor> / 100)
      else of_int \<lfloor>x * 100 + 1 / 2\<rfloor> / 100)"

text \<open>
  \<^verbatim>\<open>a ?? b\<close> yields \<open>b\<close> only when \<open>a\<close> is \<^verbatim>\<open>null\<close> or \<^verbatim>\<open>undefined\<close>. The left
  operand in the effect below is the result of \<^verbatim>\<open>Number(...)\<close>, which is always a
  number, so it is modelled as \<open>Some\<close>.
\<close>

definition nullish :: "'a option \<Rightarrow> 'a \<Rightarrow> 'a" where
  "nullish a b = (case a of None \<Rightarrow> b | Some v \<Rightarrow> v)"

text \<open>
  The layout effect "Get child height when children available": \<open>children\<close> are the
  elements under \<^verbatim>\<open>parentRef.current\<close>, one per materialized item. It returns early
  when the parent is missing or nothing is materialized.
\<close>

definition measureChildHeight :: "vs_props \<Rightarrow> element list \<Rightarrow> vs_state \<Rightarrow> vs_state" where
  "measureChildHeight p children st =
     (if \<not> parentAttached st then st
      else if length (visibleChildren p st) = 0 then st
      else
        (let firstChildEl = item children 0;
             childEl = item children 1;
             lastChildEl = item children (int (length children) - 1);
             firstChildHeight = toFixed2 (getElementHeightWithMargins firstChildEl)
         in st\<lparr>childHeight :=
                  \<lparr>firstChild = firstChildHeight,
                   child = nullish (Some (toFixed2 (getElementHeightWithMargins childEl)))
                             firstChildHeight,
                   lastChild = toFixed2 (getElementHeightWithMargins lastChildEl)\<rparr>\<rparr>))"

section \<open>ComboBox: options, selection, filtering and keyboard navigation\<close>

text \<open>
  Sources: \<^verbatim>\<open>src/unnamed/part_001\<close> (the \<^verbatim>\<open>ComboBox\<close> component) and
  \<^verbatim>\<open>src/packages/iTwinUI-react/src/core/ComboBox/ComboBoxInput.tsx\<close> (the key handler).
  React state is passed explicitly: an event handler maps the state of the render it was
  created in to the next state, and an effect is a function run after a render.
\<close>

subsection \<open>Strings\<close>

text \<open>
  A JavaScript string is the sequence of its UTF-16 code units, here natural numbers.
  \<open>codeUnits\<close> gives the code units of a literal whose characters are all below 256
  (the literals written in this theory are ASCII).
\<close>

type_synonym js_string = "nat list"

definition codeUnits :: "string \<Rightarrow> js_string" where
  "codeUnits s = map of_char s"

text \<open>
  \<^verbatim>\<open>s.includes(t)\<close>, here \<open>stringIncludes s t\<close>: \<open>t\<close> occurs in \<open>s\<close> as a contiguous run
  of code units.
\<close>

fun stringIncludes :: "js_string \<Rightarrow> js_string \<Rightarrow> bool" where
  "stringIncludes [] t = (t = [])"
| "stringIncludes (c # cs) t = (prefix t (c # cs) \<or> stringIncludes cs t)"

text \<open>
  \<^verbatim>\<open>String.prototype.toLowerCase\<close> belongs to the JavaScript runtime and rests on the
  Unicode case tables, which are not part of the repository: every definition that calls
  it takes it as the parameter \<open>toLowerCase\<close>.
\<close>

subsection \<open>Options and props\<close>

text \<open>
  \<^verbatim>\<open>SelectOption<T>\<close>, with the fields the component reads: \<^verbatim>\<open>label\<close>, \<^verbatim>\<open>value\<close>, the
  optional \<^verbatim>\<open>id\<close>, \<^verbatim>\<open>disabled\<close>, and the truthiness of \<^verbatim>\<open>isSelected\<close>.
\<close>

record 'v select_option =
  label :: js_string
  optValue :: 'v
  optId :: "js_string option"
  disabled :: bool
  isSelected :: bool

text \<open>The \<^verbatim>\<open>value\<close> prop: \<^verbatim>\<open>T | T[] | undefined\<close>.\<close>

datatype 'v value_prop = Undefined | Value 'v | Values "'v list"

record 'v cb_props =
  options :: "'v select_option list"
  valueProp :: "'v value_prop"
  multiple :: bool
  filterFunction :: "('v select_option list \<Rightarrow> js_string \<Rightarrow> 'v select_option list) option"
  enableVirtualization :: bool
  cbId :: js_string

text \<open>\<^verbatim>\<open>Array.prototype.findIndex\<close>: the first index whose element passes, or \<open>-1\<close>.\<close>

fun findIndexFrom :: "int \<Rightarrow> ('a \<Rightarrow> bool) \<Rightarrow> 'a list \<Rightarrow> int" where
  "findIndexFrom i P [] = - 1"
| "findIndexFrom i P (x # xs) = (if P x then i else findIndexFrom (i + 1) P xs)"

definition findIndex :: "('a \<Rightarrow> bool) \<Rightarrow> 'a list \<Rightarrow> int" where
  "findIndex P xs = findIndexFrom 0 P xs"

text \<open>
  \<^verbatim>\<open>option.value === valueProp\<close> for a value of type \<open>T\<close>: an option's value equals
  neither \<^verbatim>\<open>undefined\<close> nor the array of a multiple value.
\<close>

definition strictEq :: "'v \<Rightarrow> 'v value_prop \<Rightarrow> bool" where
  "strictEq v vp = (case vp of Value w \<Rightarrow> v = w | Undefined \<Rightarrow> False | Values ws \<Rightarrow> False)"

text \<open>
  \<^verbatim>\<open>getSelectedIndexes\<close>: one \<^verbatim>\<open>findIndex\<close> per supplied value, \<open>-1\<close> for a value that no
  option has. The types give \<^verbatim>\<open>valueProp\<close> as an array or \<^verbatim>\<open>undefined\<close> when
  \<^verbatim>\<open>multiple\<close> is set.
\<close>

definition getSelectedIndexes :: "'v cb_props \<Rightarrow> int list" where
  "getSelectedIndexes p =
     (if multiple p
      then (case valueProp p of
              Values vs \<Rightarrow> map (\<lambda>v. findIndex (\<lambda>opt. optValue opt = v) (options p)) vs
            | Undefined \<Rightarrow> []
            | Value v \<Rightarrow> [])
      else [])"

subsection \<open>The reducer\<close>

text \<open>\<^verbatim>\<open>selectedIndex: number | number[]\<close>.\<close>

datatype selection = Single int | Multiple "int list"

record cb_reducer =
  isOpen :: bool
  selectedIndex :: selection
  focusedIndex :: int

text \<open>
  The dispatched actions. \<open>Focus None\<close> is \<^verbatim>\<open>['focus']\<close>, dispatched without a value.
\<close>

datatype action = Open | Close | Select int | Multiselect int | Focus "int option"

text \<open>
  Modelled from the spec: \<^verbatim>\<open>comboBoxReducer\<close> is imported from \<^verbatim>\<open>./helpers\<close>, which is not
  among the sources. The specification's transition table gives: opening and closing
  set the open flag; a commit in single-select mode makes the given option the
  selection; in multi-select mode the given option's membership in the selection set is
  toggled; a focus action sets the focused index, to none (\<open>-1\<close>) when no index is given.
  An action of the other selection mode leaves the state as it is.
\<close>

fun comboBoxReducer :: "cb_reducer \<Rightarrow> action \<Rightarrow> cb_reducer" where
  "comboBoxReducer s Open = s\<lparr>isOpen := True\<rparr>"
| "comboBoxReducer s Close = s\<lparr>isOpen := False\<rparr>"
| "comboBoxReducer s (Select i) =
     (case selectedIndex s of
        Single j \<Rightarrow> s\<lparr>selectedIndex := Single i\<rparr>
      | Multiple xs \<Rightarrow> s)"
| "comboBoxReducer s (Multiselect i) =
     (case selectedIndex s of
        Single j \<Rightarrow> s
      | Multiple xs \<Rightarrow>
          s\<lparr>selectedIndex := Multiple (if i \<in> set xs then removeAll i xs else xs @ [i])\<rparr>)"
| "comboBoxReducer s (Focus v) =
     s\<lparr>focusedIndex := (case v of None \<Rightarrow> - 1 | Some i \<Rightarrow> i)\<rparr>"

subsection \<open>Component state\<close>

text \<open>
  The reducer state, the two \<^verbatim>\<open>useState\<close> cells \<^verbatim>\<open>inputValue\<close> and
  \<^verbatim>\<open>filteredOptions\<close>, the \<^verbatim>\<open>mounted\<close> ref and the \<^verbatim>\<open>optionsExtraInfoRef\<close> record
  (option id to \<^verbatim>\<open>__originalIndex\<close>, one entry per key).
\<close>

record 'v cb_state =
  reducer :: cb_reducer
  inputValue :: js_string
  filteredOptions :: "'v select_option list"
  mounted :: bool
  optionsExtraInfo :: "(js_string \<times> int) list"

definition dispatch :: "action \<Rightarrow> 'v cb_state \<Rightarrow> 'v cb_state" where
  "dispatch a st = st\<lparr>reducer := comboBoxReducer (reducer st) a\<rparr>"

text \<open>
  \<^verbatim>\<open>getOptionId\<close>: the option's own id, or one derived from the label with every
  whitespace character replaced by a dash. \<^verbatim>\<open>/\s/\<close> matches the code units of
  ECMAScript's WhiteSpace and LineTerminator: tab, line feed, vertical tab, form feed,
  carriage return, space, U+00A0, U+1680, U+2000 to U+200A, U+2028, U+2029, U+202F,
  U+205F, U+3000 and U+FEFF.
\<close>

definition isWhitespace :: "nat \<Rightarrow> bool" where
  "isWhitespace u =
     (u \<in> set [9, 10, 11, 12, 13, 32, 160, 5760, 8232, 8233, 8239, 8287, 12288, 65279]
      \<or> (8192 \<le> u \<and> u \<le> 8202))"

definition getOptionId :: "'v select_option \<Rightarrow> js_string \<Rightarrow> js_string" where
  "getOptionId opt idPrefix =
     (case optId opt of
        Some i \<Rightarrow> i
      | None \<Rightarrow>
          idPrefix @ codeUnits ''-option-''
            @ concat (map (\<lambda>u. if isWhitespace u then codeUnits ''-'' else [u]) (label opt)))"

text \<open>
  The initialisation of the extra info during render: only when there are options and the
  record is empty, \<^verbatim>\<open>options.forEach((option, index) => ...)\<close> stores each index under
  the option's id (a later option with the same id overwrites an earlier one).
\<close>

fun storeOriginalIndexes ::
  "js_string \<Rightarrow> int \<Rightarrow> 'v select_option list \<Rightarrow> (js_string \<times> int) list
     \<Rightarrow> (js_string \<times> int) list" where
  "storeOriginalIndexes idPrefix index [] info = info"
| "storeOriginalIndexes idPrefix index (opt # opts) info =
     storeOriginalIndexes idPrefix (index + 1) opts
       (AList.update (getOptionId opt idPrefix) index info)"

definition initExtraInfo ::
  "'v cb_props \<Rightarrow> (js_string \<times> int) list \<Rightarrow> (js_string \<times> int) list" where
  "initExtraInfo p info =
     (if length (options p) > 0 \<and> length info = 0
      then storeOriginalIndexes (cbId p) 0 (options p) info
      else info)"

text \<open>
  The state of the first render; \<open>inputPropsValue\<close> is
  \<^verbatim>\<open>inputProps?.value?.toString() ?? ''\<close>.
\<close>

definition initialState :: "'v cb_props \<Rightarrow> js_string \<Rightarrow> 'v cb_state" where
  "initialState p inputPropsValue =
     \<lparr>reducer =
        \<lparr>isOpen = False,
         selectedIndex =
           (if multiple p then Multiple (getSelectedIndexes p)
            else Single (findIndex (\<lambda>opt. strictEq (optValue opt) (valueProp p)) (options p))),
         focusedIndex = - 1\<rparr>,
      inputValue = inputPropsValue,
      filteredOptions = options p,
      mounted = False,
      optionsExtraInfo = initExtraInfo p []\<rparr>"

subsection \<open>Filtering\<close>

text \<open>
  The expression \<^verbatim>\<open>filterFunction?.(options, value) ?? options.filter(...)\<close>, which the
  source writes out twice (in \<^verbatim>\<open>handleOnInput\<close> and in the effect on \<^verbatim>\<open>options\<close>).
\<close>

definition filterOptions ::
  "(js_string \<Rightarrow> js_string) \<Rightarrow> 'v cb_props \<Rightarrow> 'v select_option list \<Rightarrow> js_string
     \<Rightarrow> 'v select_option list" where
  "filterOptions toLowerCase p opts v =
     (case filterFunction p of
        Some f \<Rightarrow> f opts v
      | None \<Rightarrow> filter (\<lambda>opt. stringIncludes (toLowerCase (label opt)) (toLowerCase v)) opts)"

text \<open>
  \<^verbatim>\<open>handleOnInput\<close>: a keystroke that leaves the input holding \<open>v\<close>. \<^verbatim>\<open>focusedIndex\<close> is
  the one of the render the handler was created in; \<^verbatim>\<open>optionsRef.current\<close> is the
  current \<^verbatim>\<open>options\<close> prop.
\<close>

definition handleOnInput ::
  "(js_string \<Rightarrow> js_string) \<Rightarrow> 'v cb_props \<Rightarrow> js_string \<Rightarrow> 'v cb_state \<Rightarrow> 'v cb_state" where
  "handleOnInput toLowerCase p v st =
     (let st1 = st\<lparr>inputValue := v\<rparr>;
          st2 = dispatch Open st1;
          st3 = st2\<lparr>filteredOptions := filterOptions toLowerCase p (options p) v\<rparr>
      in if focusedIndex (reducer st) \<noteq> - 1 then dispatch (Focus (Some (- 1))) st3 else st3)"

text \<open>The effect on \<^verbatim>\<open>[options]\<close>: "Update filtered options to the latest value options".\<close>

definition optionsEffect ::
  "(js_string \<Rightarrow> js_string) \<Rightarrow> 'v cb_props \<Rightarrow> 'v cb_state \<Rightarrow> 'v cb_state" where
  "optionsEffect toLowerCase p st =
     dispatch (Focus None)
       (st\<lparr>filteredOptions :=
             (if inputValue st \<noteq> []
              then filterOptions toLowerCase p (options p) (inputValue st)
              else options p)\<rparr>)"

subsection \<open>Opening and closing\<close>

text \<open>
  The layout effect on \<^verbatim>\<open>[isOpen, multiple, optionsRef, selectedIndex]\<close>. When the dropdown
  is open it resets the filtered list to all options and the focus to none; when it is
  closed it resets the focus and, in single mode, sets the input text to the label of the
  selected option, or to the empty text when the index is negative. The label of an index
  that has no option is \<^verbatim>\<open>undefined\<close>, which the input shows as empty text and
  \<^verbatim>\<open>if (inputValue)\<close> treats as empty: it is modelled as the empty text. (An array
  for \<^verbatim>\<open>selectedIndex\<close> in single mode is read through its string form, as in
  \<open>currentValue\<close> below.)
\<close>

definition openCloseEffect :: "'v cb_props \<Rightarrow> 'v cb_state \<Rightarrow> 'v cb_state" where
  "openCloseEffect p st =
     (if isOpen (reducer st)
      then dispatch (Focus None) (st\<lparr>filteredOptions := options p\<rparr>)
      else
        (let st1 = dispatch (Focus None) st
         in if multiple p then st1
            else st1\<lparr>inputValue :=
                      (case (case selectedIndex (reducer st) of
                               Single i \<Rightarrow> Some i
                             | Multiple xs \<Rightarrow> (case xs of [i] \<Rightarrow> Some i | _ \<Rightarrow> None)) of
                         None \<Rightarrow> []
                       | Some i \<Rightarrow>
                           if i \<ge> 0
                           then (case item (options p) i of
                                   None \<Rightarrow> []
                                 | Some opt \<Rightarrow> label opt)
                           else [])\<rparr>))"

subsection \<open>Reconciling the selection with the value prop\<close>

text \<open>
  The effect on \<^verbatim>\<open>[multiple, options, valueProp]\<close>. Its multiple branch is empty in the
  source (the dispatch is commented out under "TODO add multiselect version of this").
\<close>

definition valuePropEffect :: "'v cb_props \<Rightarrow> 'v cb_state \<Rightarrow> 'v cb_state" where
  "valuePropEffect p st =
     (if multiple p then st
      else dispatch
             (Select (findIndex (\<lambda>opt. strictEq (optValue opt) (valueProp p)) (options p))) st)"

subsection \<open>The change notification\<close>

datatype cb_error = TypeError

datatype change_event = Added | Removed

text \<open>
  A call of the caller's \<^verbatim>\<open>onChange\<close> (taken to be supplied): with the value alone in
  single mode (\<open>None\<close> is \<^verbatim>\<open>undefined\<close>), with the value and the event in multiple mode.
\<close>

datatype 'v notification = OnChange "'v option" | OnChangeMulti 'v change_event

text \<open>
  \<^verbatim>\<open>currentOptions.map((option) => onChange(option.value, option.isSelected ? 'removed' : 'added'))\<close>
  over \<^verbatim>\<open>selectedOptions\<close>, whose entries are \<^verbatim>\<open>optionsRef.current[index]\<close>: reading
  \<^verbatim>\<open>.value\<close> of an \<^verbatim>\<open>undefined\<close> entry throws.
\<close>

fun notifySelected :: "'v select_option option list \<Rightarrow> cb_error + 'v notification list" where
  "notifySelected [] = Inr []"
| "notifySelected (None # rest) = Inl TypeError"
| "notifySelected (Some opt # rest) =
     (case notifySelected rest of
        Inl e \<Rightarrow> Inl e
      | Inr ns \<Rightarrow>
          Inr (OnChangeMulti (optValue opt) (if isSelected opt then Removed else Added) # ns))"

text \<open>
  \<^verbatim>\<open>optionsRef.current[selectedIndex]?.value\<close> in the single branch. Should
  \<^verbatim>\<open>selectedIndex\<close> be an array there, JavaScript reads the property named by its string
  form, which is an index only for a one-element array.
\<close>

definition currentValue :: "'v cb_props \<Rightarrow> selection \<Rightarrow> 'v option" where
  "currentValue p sel =
     (case sel of
        Single i \<Rightarrow> map_option optValue (item (options p) i)
      | Multiple xs \<Rightarrow>
          (case xs of [i] \<Rightarrow> map_option optValue (item (options p) i) | _ \<Rightarrow> None))"

text \<open>\<^verbatim>\<open>currentValue === valuePropRef.current\<close>.\<close>

definition sameValue :: "'v option \<Rightarrow> 'v value_prop \<Rightarrow> bool" where
  "sameValue cur vp =
     (case cur of None \<Rightarrow> vp = Undefined | Some v \<Rightarrow> strictEq v vp)"

text \<open>
  The effect "Call user-defined onChange when the value actually changes". It returns
  the state (the \<^verbatim>\<open>mounted\<close> ref may be set) and the calls of \<^verbatim>\<open>onChange\<close> it made, in
  order. With \<^verbatim>\<open>multiple\<close> set and a number for \<^verbatim>\<open>selectedIndex\<close>,
  \<^verbatim>\<open>selectedIndex.map\<close> is not a function.
\<close>

definition onChangeEffect ::
  "'v cb_props \<Rightarrow> 'v cb_state \<Rightarrow> cb_error + ('v cb_state \<times> 'v notification list)" where
  "onChangeEffect p st =
     (if \<not> mounted st then Inr (st\<lparr>mounted := True\<rparr>, [])
      else if multiple p then
        (case selectedIndex (reducer st) of
           Single i \<Rightarrow> Inl TypeError
         | Multiple xs \<Rightarrow>
             (let currentOptions = map (item (options p)) xs
              in if length currentOptions > 0
                 then (case notifySelected currentOptions of
                         Inl e \<Rightarrow> Inl e
                       | Inr ns \<Rightarrow> Inr (st, ns))
                 else Inr (st, [])))
      else
        (let cur = currentValue p (selectedIndex (reducer st))
         in if sameValue cur (valueProp p) \<or> selectedIndex (reducer st) = Single (- 1)
            then Inr (st, [])
            else Inr (st, [OnChange cur])))"

text \<open>
  After an event the component renders again and React runs an effect only if one of its
  dependencies changed. The refs among them are stable and \<^verbatim>\<open>selectedOptions\<close> is a memo
  of \<^verbatim>\<open>selectedIndex\<close>, so with unchanged props the change effect runs exactly when
  \<^verbatim>\<open>selectedIndex\<close> changed, and the layout effect exactly when \<^verbatim>\<open>isOpen\<close> or
  \<^verbatim>\<open>selectedIndex\<close> changed. (Arrays are compared by reference; the reducer above builds a
  new array exactly when it changes its contents.) Both effects read the render that
  follows the event. What the layout effect sets (focus, filtered list, input text) is
  not a dependency of either effect, so the render it causes runs neither again.
\<close>

definition afterRender ::
  "'v cb_props \<Rightarrow> 'v cb_state \<Rightarrow> 'v cb_state
     \<Rightarrow> cb_error + ('v cb_state \<times> 'v notification list)" where
  "afterRender p prev st =
     (case (if selectedIndex (reducer prev) \<noteq> selectedIndex (reducer st)
            then onChangeEffect p st
            else Inr (st, [])) of
        Inl e \<Rightarrow> Inl e
      | Inr (st1, ns) \<Rightarrow>
          Inr (if isOpen (reducer prev) = isOpen (reducer st)
                  \<and> selectedIndex (reducer prev) = selectedIndex (reducer st)
               then st1
               else openCloseEffect p st1, ns))"

text \<open>
  Mounting: the first render and the effects of its commit, each reading the first
  render: the layout effect, the effect on \<^verbatim>\<open>[options]\<close>, the value-prop effect, and the
  change effect, which only sets \<^verbatim>\<open>mounted\<close>; then the render that their updates cause.
  The updates are applied with the effect on \<^verbatim>\<open>[options]\<close> first, because it reads the
  input text of the first render, which the layout effect overwrites. (The effect that
  empties the extra info and the initialisation in the next render cancel out.)
\<close>

definition mount ::
  "(js_string \<Rightarrow> js_string) \<Rightarrow> 'v cb_props \<Rightarrow> js_string
     \<Rightarrow> cb_error + ('v cb_state \<times> 'v notification list)" where
  "mount toLowerCase p inputPropsValue =
     (let st0 = initialState p inputPropsValue;
          queued = valuePropEffect p (openCloseEffect p (optionsEffect toLowerCase p st0))
      in case onChangeEffect p st0 of
           Inl e \<Rightarrow> Inl e
         | Inr (st1, ns) \<Rightarrow>
             (case afterRender p st0 (queued\<lparr>mounted := mounted st1\<rparr>) of
                Inl e \<Rightarrow> Inl e
              | Inr (st2, ns') \<Rightarrow> Inr (st2, ns @ ns')))"

text \<open>
  The caller changes the value prop (\<open>p\<close> already holds the new value): the value-prop
  effect runs, then the render its dispatch causes.
\<close>

definition valuePropChanged ::
  "'v cb_props \<Rightarrow> 'v cb_state \<Rightarrow> cb_error + ('v cb_state \<times> 'v notification list)" where
  "valuePropChanged p st = afterRender p st (valuePropEffect p st)"

subsection \<open>The key handler of the input\<close>

text \<open>
  What \<^verbatim>\<open>handleKeyDown\<close> reads of the menu: its item elements in document order, each
  with its \<^verbatim>\<open>data-iui-index\<close> and whether \<^verbatim>\<open>ariaDisabled\<close> is \<^verbatim>\<open>'true'\<close>. The items are
  taken to be the element children of one parent, so that \<^verbatim>\<open>nextElementSibling\<close> is the
  next item of the list.
\<close>

record menu_item =
  dataIndex :: int
  ariaDisabled :: bool

text \<open>\<^verbatim>\<open>menuRef.current?.querySelector('[data-iui-index]')\<close>\<close>

definition querySelectorFirst :: "menu_item list \<Rightarrow> menu_item option" where
  "querySelectorFirst menu = (case menu of [] \<Rightarrow> None | m # ms \<Rightarrow> Some m)"

text \<open>\<^verbatim>\<open>menuRef.current?.querySelector(`[data-iui-index="${k}"]`)?.nextElementSibling\<close>\<close>

fun nextElementSibling :: "menu_item list \<Rightarrow> int \<Rightarrow> menu_item option" where
  "nextElementSibling [] k = None"
| "nextElementSibling (m # ms) k =
     (if dataIndex m = k then querySelectorFirst ms else nextElementSibling ms k)"

text \<open>
  The \<^verbatim>\<open>do ... while (nextIndex !== focusedIndexRef.current)\<close> loop of ArrowDown. It
  can run forever (a focused index that is not in a menu of disabled items), so it takes
  fuel and \<open>None\<close> means the fuel ran out. With no element at all, the dispatched value
  is \<^verbatim>\<open>Number(undefined)\<close>, which is \<^verbatim>\<open>NaN\<close>.
\<close>

datatype focus_target = NoDispatch | FocusOn int | FocusNaN

fun arrowDownLoop :: "nat \<Rightarrow> menu_item list \<Rightarrow> int \<Rightarrow> int \<Rightarrow> focus_target option" where
  "arrowDownLoop 0 menu focused nextIndex = None"
| "arrowDownLoop (Suc fuel) menu focused nextIndex =
     (let nextElement =
            (case nextElementSibling menu nextIndex of
               Some e \<Rightarrow> Some e
             | None \<Rightarrow> querySelectorFirst menu)
      in case nextElement of
           None \<Rightarrow> Some FocusNaN
         | Some e \<Rightarrow>
             if \<not> ariaDisabled e then Some (FocusOn (dataIndex e))
             else if dataIndex e \<noteq> focused then arrowDownLoop fuel menu focused (dataIndex e)
             else Some NoDispatch)"

text \<open>
  The result of a key press: the next state, or the dispatch of a \<^verbatim>\<open>NaN\<close> focus, which
  the integer \<open>focusedIndex\<close> of the model cannot hold.
\<close>

datatype 'a outcome = Next 'a | DispatchedFocusNaN

definition arrowDown ::
  "nat \<Rightarrow> 'v cb_props \<Rightarrow> menu_item list \<Rightarrow> 'v cb_state \<Rightarrow> 'v cb_state outcome option" where
  "arrowDown fuel p menu st =
     (if \<not> isOpen (reducer st) then Some (Next (dispatch Open st))
      else if length (optionsExtraInfo st) = 0 then Some (Next st)
      else if focusedIndex (reducer st) = - 1 then
        Some (Next (dispatch
          (Focus (Some (case querySelectorFirst menu of
                          None \<Rightarrow> 0
                        | Some e \<Rightarrow> dataIndex e))) st))
      else if enableVirtualization p
              \<and> nextElementSibling menu (focusedIndex (reducer st)) = None then Some (Next st)
      else
        (case arrowDownLoop fuel menu (focusedIndex (reducer st)) (focusedIndex (reducer st)) of
           None \<Rightarrow> None
         | Some NoDispatch \<Rightarrow> Some (Next st)
         | Some (FocusOn i) \<Rightarrow> Some (Next (dispatch (Focus (Some i)) st))
         | Some FocusNaN \<Rightarrow> Some DispatchedFocusNaN))"

text \<open>
  The Enter case. \<^verbatim>\<open>onChangeHandler\<close> is read from the state context, and the context
  value that \<^verbatim>\<open>ComboBox\<close> provides has no such field, so \<^verbatim>\<open>onChangeHandler?.(...)\<close> calls
  nothing.
\<close>

definition enterKey :: "'v cb_props \<Rightarrow> 'v cb_state \<Rightarrow> 'v cb_state" where
  "enterKey p st =
     (if isOpen (reducer st) then
        (if multiple p then
           (if focusedIndex (reducer st) > - 1
            then dispatch (Multiselect (focusedIndex (reducer st))) st
            else dispatch Close st)
         else dispatch Close (dispatch (Select (focusedIndex (reducer st))) st))
      else dispatch Open st)"

text \<open>The keys of \<^verbatim>\<open>handleKeyDown\<close> that are modelled (ArrowUp is not).\<close>

datatype key = ArrowDown | Enter | Escape | Tab

definition handleKeyDown ::
  "nat \<Rightarrow> 'v cb_props \<Rightarrow> menu_item list \<Rightarrow> key \<Rightarrow> 'v cb_state
     \<Rightarrow> 'v cb_state outcome option" where
  "handleKeyDown fuel p menu k st =
     (case k of
        ArrowDown \<Rightarrow> arrowDown fuel p menu st
      | Enter \<Rightarrow> Some (Next (enterKey p st))
      | Escape \<Rightarrow> Some (Next (dispatch Close st))
      | Tab \<Rightarrow> Some (Next (dispatch Close st)))"

text \<open>A key press or a keystroke, followed by the render it causes and its effects.\<close>

definition pressEnter ::
  "'v cb_props \<Rightarrow> 'v cb_state \<Rightarrow> cb_error + ('v cb_state \<times> 'v notification list)" where
  "pressEnter p st = afterRender p st (enterKey p st)"

definition inputText ::
  "(js_string \<Rightarrow> js_string) \<Rightarrow> 'v cb_props \<Rightarrow> js_string \<Rightarrow> 'v cb_state
     \<Rightarrow> cb_error + ('v cb_state \<times> 'v notification list)" where
  "inputText toLowerCase p v st = afterRender p st (handleOnInput toLowerCase p v st)"

subsection \<open>Sample inputs\<close>

text \<open>
  Three options with ASCII labels and the values 1, 2 and 3, and props over them:
  single-select without a value (uncontrolled), and multi-select. On strings of ASCII
  code units the runtime's \<^verbatim>\<open>toLowerCase\<close> is \<open>asciiToLowerCase\<close>.
\<close>

definition asciiToLowerCase :: "js_string \<Rightarrow> js_string" where
  "asciiToLowerCase s = map (\<lambda>u. if 65 \<le> u \<and> u \<le> 90 then u + 32 else u) s"

definition apple :: "nat select_option" where
  "apple = \<lparr>label = codeUnits ''Apple'', optValue = 1, optId = None, disabled = False,
            isSelected = False\<rparr>"

definition banana :: "nat select_option" where
  "banana = \<lparr>label = codeUnits ''Banana'', optValue = 2, optId = None, disabled = False,
             isSelected = False\<rparr>"

definition cherry :: "nat select_option" where
  "cherry = \<lparr>label = codeUnits ''Cherry pie'', optValue = 3, optId = None, disabled = False,
             isSelected = False\<rparr>"

definition singleProps :: "nat cb_props" where
  "singleProps =
     \<lparr>options = [apple, banana, cherry], valueProp = Undefined, multiple = False,
      filterFunction = None, enableVirtualization = False, cbId = codeUnits ''cb''\<rparr>"

definition multiProps :: "nat list \<Rightarrow> nat cb_props" where
  "multiProps vs =
     \<lparr>options = [apple, banana, cherry], valueProp = Values vs, multiple = True,
      filterFunction = None, enableVirtualization = False, cbId = codeUnits ''cb''\<rparr>"

text \<open>A mounted, open combo box with the given selection and focused index.\<close>

definition openState :: "nat cb_props \<Rightarrow> selection \<Rightarrow> int \<Rightarrow> nat cb_state" where
  "openState p sel focused =
     (initialState p [])\<lparr>mounted := True,
        reducer := \<lparr>isOpen = True, selectedIndex = sel, focusedIndex = focused\<rparr>\<rparr>"

text \<open>A mounted, closed combo box with the given selection and no focused option.\<close>

definition closedState :: "nat cb_props \<Rightarrow> selection \<Rightarrow> nat cb_state" where
  "closedState p sel =
     (initialState p [])\<lparr>mounted := True,
        reducer := \<lparr>isOpen = False, selectedIndex = sel, focusedIndex = - 1\<rparr>\<rparr>"

section \<open>Properties of the windower\<close>

subsection \<open>Auxiliary facts\<close>

lemma nodes_nonneg:
  "0 \<le> h \<Longrightarrow> 0 \<le> t \<Longrightarrow> 0 \<le> getNumberOfNodesInHeight h t"
  by (simp add: getNumberOfNodesInHeight_def)

lemma nodes_nonpos:
  "h < 0 \<Longrightarrow> 0 \<le> t \<Longrightarrow> getNumberOfNodesInHeight h t \<le> 0"
  by (simp add: getNumberOfNodesInHeight_def floor_le_zero divide_nonneg_neg)

lemma startNode_update:
  "scrollContainer st = Some c \<Longrightarrow>
   startNode (updateVirtualScroll p arg st) =
     max 0 (getNumberOfNodesInHeight (child (childHeight st))
              (case arg of Some t \<Rightarrow> t | None \<Rightarrow> scrollTop c) - bufferSize p)"
  by (simp add: updateVirtualScroll_def Let_def)

lemma visibleNodeCount_update:
  "scrollContainer st = Some c \<Longrightarrow>
   visibleNodeCount (updateVirtualScroll p arg st) =
     min (itemsLength p - getNumberOfNodesInHeight (child (childHeight st))
              (case arg of Some t \<Rightarrow> t | None \<Rightarrow> scrollTop c))
         (getNumberOfNodesInHeight (child (childHeight st)) (rectHeight c))"
  by (simp add: updateVirtualScroll_def Let_def getVisibleNodeCount_def getElementHeight_def)

lemma visibleChildren_subset:
  "0 \<le> startNode st \<Longrightarrow> set (visibleChildren p st) \<subseteq> {0..<itemsLength p}"
  by (auto simp: visibleChildren_def endIndex_def)



subsection \<open>The window computation\<close>

text \<open>
  Claim C5. For a scroll offset, viewport height, row height, item count and buffer size
  that are all non-negative, a recomputation yields
  \<open>rawStart = \<lfloor>scrollOffset / rowHeight\<rfloor>\<close>, taken as \<open>0\<close> when the row height is \<open>0\<close>
  (the guard of \<open>getNumberOfNodesInHeight\<close>, which also guards the second quotient),
  \<open>startIndex = max 0 (rawStart - bufferSize)\<close> and
  \<open>visibleCount = min (itemCount - rawStart) \<lfloor>viewportHeight / rowHeight\<rfloor>\<close>; and a scroll
  offset of \<open>0\<close> yields \<open>startIndex = 0\<close>. The scroll offset is the argument of
  \<open>updateVirtualScroll\<close> when one is passed and the container's \<open>scrollTop\<close> otherwise.
\<close>

theorem updateVirtualScroll_window:
  assumes "0 \<le> scrollOffset" and "0 \<le> rectHeight c" and "0 \<le> child (childHeight st)"
    and "0 \<le> itemsLength p" and "0 \<le> bufferSize p"
    and "scrollContainer st = Some c"
    and "scrollOffset = (case arg of Some t \<Rightarrow> t | None \<Rightarrow> scrollTop c)"
  shows "getNumberOfNodesInHeight (child (childHeight st)) scrollOffset =
           (if child (childHeight st) = 0 then 0
            else \<lfloor>scrollOffset / child (childHeight st)\<rfloor>) \<and>
         startNode (updateVirtualScroll p arg st) =
           max 0 ((if child (childHeight st) = 0 then 0
                   else \<lfloor>scrollOffset / child (childHeight st)\<rfloor>) - bufferSize p) \<and>
         visibleNodeCount (updateVirtualScroll p arg st) =
           min (itemsLength p - (if child (childHeight st) = 0 then 0
                                 else \<lfloor>scrollOffset / child (childHeight st)\<rfloor>))
               (if child (childHeight st) = 0 then 0
                else \<lfloor>rectHeight c / child (childHeight st)\<rfloor>) \<and>
         (scrollOffset = 0 \<longrightarrow> startNode (updateVirtualScroll p arg st) = 0)"
proof -
  have raw: "getNumberOfNodesInHeight (child (childHeight st)) scrollOffset =
           (if child (childHeight st) = 0 then 0
            else \<lfloor>scrollOffset / child (childHeight st)\<rfloor>)"
    by (simp add: getNumberOfNodesInHeight_def)
  have s: "startNode (updateVirtualScroll p arg st) =
      max 0 (getNumberOfNodesInHeight (child (childHeight st)) scrollOffset - bufferSize p)"
    using assms(6,7) by (simp add: startNode_update)
  have v: "visibleNodeCount (updateVirtualScroll p arg st) =
      min (itemsLength p - getNumberOfNodesInHeight (child (childHeight st)) scrollOffset)
          (getNumberOfNodesInHeight (child (childHeight st)) (rectHeight c))"
    using assms(6,7) by (simp add: visibleNodeCount_update)
  have z: "startNode (updateVirtualScroll p arg st) = 0" if "scrollOffset = 0"
    using that assms(5) by (simp add: s getNumberOfNodesInHeight_def)
  show ?thesis
    using raw s v z by (simp add: getNumberOfNodesInHeight_def)
qed

theorem updateVirtualScroll_window_witness:
  "startNode (updateVirtualScroll \<lparr>itemsLength = 100, bufferSize = 10, scrollToIndex = 0\<rparr> None
     ((vs_init (Some \<lparr>rectHeight = 200, marginTop = 0, marginBottom = 0, scrollTop = 450\<rparr>))
        \<lparr>childHeight := \<lparr>firstChild = 20, child = 20, lastChild = 20\<rparr>\<rparr>)) = 12 \<and>
   visibleNodeCount (updateVirtualScroll \<lparr>itemsLength = 100, bufferSize = 10, scrollToIndex = 0\<rparr> None
     ((vs_init (Some \<lparr>rectHeight = 200, marginTop = 0, marginBottom = 0, scrollTop = 450\<rparr>))
        \<lparr>childHeight := \<lparr>firstChild = 20, child = 20, lastChild = 20\<rparr>\<rparr>)) = 10 \<and>
   startNode (updateVirtualScroll \<lparr>itemsLength = 100, bufferSize = 10, scrollToIndex = 0\<rparr> None
     ((vs_init (Some \<lparr>rectHeight = 200, marginTop = 0, marginBottom = 0, scrollTop = 0\<rparr>))
        \<lparr>childHeight := \<lparr>firstChild = 20, child = 20, lastChild = 20\<rparr>\<rparr>)) = 0"
  using updateVirtualScroll_window [of 450
      "\<lparr>rectHeight = 200, marginTop = 0, marginBottom = 0, scrollTop = 450\<rparr>"
      "(vs_init (Some \<lparr>rectHeight = 200, marginTop = 0, marginBottom = 0, scrollTop = 450\<rparr>))
        \<lparr>childHeight := \<lparr>firstChild = 20, child = 20, lastChild = 20\<rparr>\<rparr>"
      "\<lparr>itemsLength = 100, bufferSize = 10, scrollToIndex = 0\<rparr>" None]
    updateVirtualScroll_window [of 0
      "\<lparr>rectHeight = 200, marginTop = 0, marginBottom = 0, scrollTop = 0\<rparr>"
      "(vs_init (Some \<lparr>rectHeight = 200, marginTop = 0, marginBottom = 0, scrollTop = 0\<rparr>))
        \<lparr>childHeight := \<lparr>firstChild = 20, child = 20, lastChild = 20\<rparr>\<rparr>"
      "\<lparr>itemsLength = 100, bufferSize = 10, scrollToIndex = 0\<rparr>" None]
  by (simp add: vs_init_def)

subsection \<open>The materialized range and the window invariant\<close>

text \<open>
  Claim C1, as stated, fails: it asks for \<open>startIndex + visibleCount \<le> itemCount\<close> after
  every recomputation, for every scroll offset. With two items of height 10, no buffer, a
  viewport of height 100 and a scroll offset of \<open>-5\<close> (an overscrolled or reversed
  container), \<open>rawStart\<close> is \<open>-1\<close>, the start index is \<open>0\<close> and the visible count is
  \<open>min (2 + 1) 10 = 3\<close>, which exceeds the item count.
\<close>

theorem window_invariant_counterexample:
  "\<not> (startNode (onScroll \<lparr>itemsLength = 2, bufferSize = 0, scrollToIndex = 0\<rparr>
          ((vs_init (Some \<lparr>rectHeight = 100, marginTop = 0, marginBottom = 0, scrollTop = - 5\<rparr>))
             \<lparr>childHeight := \<lparr>firstChild = 10, child = 10, lastChild = 10\<rparr>\<rparr>))
       + visibleNodeCount (onScroll \<lparr>itemsLength = 2, bufferSize = 0, scrollToIndex = 0\<rparr>
          ((vs_init (Some \<lparr>rectHeight = 100, marginTop = 0, marginBottom = 0, scrollTop = - 5\<rparr>))
             \<lparr>childHeight := \<lparr>firstChild = 10, child = 10, lastChild = 10\<rparr>\<rparr>))
       \<le> itemsLength \<lparr>itemsLength = 2, bufferSize = 0, scrollToIndex = 0\<rparr>)"
  by (simp add: onScroll_def updateVirtualScroll_def vs_init_def getNumberOfNodesInHeight_def
      getVisibleNodeCount_def getElementHeight_def Let_def)

text \<open>
  Claim C1, amended. For every item count and buffer size that are non-negative, and
  every scroll offset, row height and container height: the materialized indices of the
  initial state and of the state after a recomputation all lie in \<open>[0, itemCount)\<close>, and
  after a recomputation \<open>startIndex \<ge> 0\<close>. When moreover the scroll offset and the
  container height are non-negative, \<open>startIndex + visibleCount \<le> itemCount\<close>. A
  recomputation is a call of \<open>updateVirtualScroll\<close> with a scroll container present, with
  or without an explicit offset (the scroll listener and the resize effect both are).
\<close>

theorem window_within_items:
  assumes n: "0 \<le> itemsLength p" and b: "0 \<le> bufferSize p"
    and c: "scrollContainer st = Some c"
  shows "set (visibleChildren p (vs_init c0)) \<subseteq> {0..<itemsLength p} \<and>
         set (visibleChildren p (updateVirtualScroll p arg st)) \<subseteq> {0..<itemsLength p} \<and>
         0 \<le> startNode (updateVirtualScroll p arg st) \<and>
         (0 \<le> (case arg of Some t \<Rightarrow> t | None \<Rightarrow> scrollTop c) \<and> 0 \<le> rectHeight c \<longrightarrow>
            startNode (updateVirtualScroll p arg st)
              + visibleNodeCount (updateVirtualScroll p arg st) \<le> itemsLength p)"
proof -
  let ?st' = "updateVirtualScroll p arg st"
  let ?so = "case arg of Some t \<Rightarrow> t | None \<Rightarrow> scrollTop c"
  let ?rh = "child (childHeight st)"
  let ?start = "getNumberOfNodesInHeight ?rh ?so"
  have s0: "0 \<le> startNode ?st'"
    by (simp add: startNode_update [OF c])
  have i: "set (visibleChildren p (vs_init c0)) \<subseteq> {0..<itemsLength p}"
    by (rule visibleChildren_subset) (simp add: vs_init_def)
  have r: "set (visibleChildren p ?st') \<subseteq> {0..<itemsLength p}"
    by (rule visibleChildren_subset [OF s0])
  have le: "startNode ?st' + visibleNodeCount ?st' \<le> itemsLength p"
    if so: "0 \<le> ?so" and h: "0 \<le> rectHeight c"
  proof (cases "0 \<le> ?rh")
    case True
    then have "0 \<le> ?start" using so by (rule nodes_nonneg)
    then show ?thesis
      using b by (simp add: startNode_update [OF c] visibleNodeCount_update [OF c])
  next
    case False
    then have "getNumberOfNodesInHeight ?rh (rectHeight c) \<le> 0"
      using h by (simp add: nodes_nonpos)
    moreover have "?start \<le> 0" using False so by (simp add: nodes_nonpos)
    ultimately show ?thesis
      using n b by (simp add: startNode_update [OF c] visibleNodeCount_update [OF c])
  qed
  from i r s0 le show ?thesis by blast
qed

theorem window_within_items_witness:
  "set (visibleChildren \<lparr>itemsLength = 100, bufferSize = 10, scrollToIndex = 0\<rparr>
     (updateVirtualScroll \<lparr>itemsLength = 100, bufferSize = 10, scrollToIndex = 0\<rparr> None
       ((vs_init (Some \<lparr>rectHeight = 200, marginTop = 0, marginBottom = 0, scrollTop = 450\<rparr>))
          \<lparr>childHeight := \<lparr>firstChild = 20, child = 20, lastChild = 20\<rparr>\<rparr>)))
     \<subseteq> {0..<100} \<and>
   startNode (updateVirtualScroll \<lparr>itemsLength = 100, bufferSize = 10, scrollToIndex = 0\<rparr> None
       ((vs_init (Some \<lparr>rectHeight = 200, marginTop = 0, marginBottom = 0, scrollTop = 450\<rparr>))
          \<lparr>childHeight := \<lparr>firstChild = 20, child = 20, lastChild = 20\<rparr>\<rparr>))
   + visibleNodeCount (updateVirtualScroll \<lparr>itemsLength = 100, bufferSize = 10, scrollToIndex = 0\<rparr> None
       ((vs_init (Some \<lparr>rectHeight = 200, marginTop = 0, marginBottom = 0, scrollTop = 450\<rparr>))
          \<lparr>childHeight := \<lparr>firstChild = 20, child = 20, lastChild = 20\<rparr>\<rparr>))
   \<le> 100"
  using window_within_items [of "\<lparr>itemsLength = 100, bufferSize = 10, scrollToIndex = 0\<rparr>"
      "(vs_init (Some \<lparr>rectHeight = 200, marginTop = 0, marginBottom = 0, scrollTop = 450\<rparr>))
        \<lparr>childHeight := \<lparr>firstChild = 20, child = 20, lastChild = 20\<rparr>\<rparr>"
      "\<lparr>rectHeight = 200, marginTop = 0, marginBottom = 0, scrollTop = 450\<rparr>" None None]
  by (simp add: vs_init_def)

subsection \<open>The translate value\<close>

text \<open>
  Claim C6, as stated, fails in its "exactly when": with a first row of height \<open>0\<close> (or
  nothing measured yet) the translate value at start index \<open>1\<close> is
  \<open>rowHeight * 0 + 0 = 0\<close> although the start index is not \<open>0\<close>.
\<close>

theorem translate_zero_counterexample:
  "\<not> (getTranslateValue 20 0 1 = 0 \<longleftrightarrow> (1::int) = 0)"
  by (simp add: getTranslateValue_def)

text \<open>
  Claim C6, amended. For every row height, first-row height and start index \<open>\<ge> 0\<close>,
  \<open>getTranslateValue\<close> returns \<open>0\<close> when the start index is \<open>0\<close> and
  \<open>rowHeight * (startIndex - 1) + firstRowHeight\<close> otherwise; when the row height is
  non-negative and the first-row height is positive, it returns \<open>0\<close> exactly when the
  start index is \<open>0\<close>.
\<close>

theorem translate_value:
  assumes "0 \<le> startIndex"
  shows "(startIndex = 0 \<longrightarrow> getTranslateValue rowHeight firstRowHeight startIndex = 0) \<and>
         (startIndex \<noteq> 0 \<longrightarrow> getTranslateValue rowHeight firstRowHeight startIndex
              = rowHeight * of_int (startIndex - 1) + firstRowHeight) \<and>
         (0 \<le> rowHeight \<and> 0 < firstRowHeight \<longrightarrow>
            (getTranslateValue rowHeight firstRowHeight startIndex = 0 \<longleftrightarrow> startIndex = 0))"
proof -
  have "0 < rowHeight * of_int (startIndex - 1) + firstRowHeight"
    if "0 \<le> rowHeight" "0 < firstRowHeight" "0 < startIndex"
  proof -
    have "0 \<le> rowHeight * of_int (startIndex - 1)" using that by simp
    then show ?thesis using that by linarith
  qed
  then show ?thesis using assms by (auto simp: getTranslateValue_def)
qed

theorem translate_value_witness:
  "getTranslateValue 20 25 0 = 0 \<and> getTranslateValue 20 25 3 = 65 \<and>
   getTranslateValue 20 25 3 \<noteq> 0"
  using translate_value [of 0 20 25] translate_value [of 3 20 25]
  by simp

subsection \<open>Measuring the rows\<close>

text \<open>
  Claim C9 asks that the uniform height fall back to the first row's measured height
  when there is no second row. The source writes the fallback as
  \<^verbatim>\<open>Number(...) ?? firstChildHeight\<close>, but \<^verbatim>\<open>Number(...)\<close> is never \<^verbatim>\<open>null\<close> or
  \<^verbatim>\<open>undefined\<close>: with a single materialized row of height 20 and margins 2 and 3 the
  first and last heights are 25 and the uniform height is stored as 0.
\<close>

theorem measure_single_row_uniform_zero:
  "childHeight (measureChildHeight \<lparr>itemsLength = 1, bufferSize = 10, scrollToIndex = 0\<rparr>
      [\<lparr>rectHeight = 20, marginTop = 2, marginBottom = 3\<rparr>] (vs_init None))
   = \<lparr>firstChild = 25, child = 0, lastChild = 25\<rparr>"
  by (simp add: measureChildHeight_def visibleChildren_def endIndex_def vs_init_def item_def
      toFixed2_def getElementHeightWithMargins_def getElementHeight_def nullish_def Let_def)

subsection \<open>Before the first measurement, and an empty list\<close>




section \<open>Properties of the ComboBox\<close>

subsection \<open>Auxiliary facts\<close>

lemma stringIncludes_sublist: "stringIncludes s t \<longleftrightarrow> sublist t s"
  by (induction s) (simp_all add: sublist_Cons_right)

lemma stringIncludes_iff: "stringIncludes s t \<longleftrightarrow> (\<exists>pre suf. s = pre @ t @ suf)"
  by (simp add: stringIncludes_sublist sublist_def)

lemma handleOnInput_filtered:
  "filteredOptions (handleOnInput toLowerCase p v st) = filterOptions toLowerCase p (options p) v"
  by (simp add: handleOnInput_def dispatch_def Let_def)

lemma handleOnInput_reducer:
  "isOpen (reducer (handleOnInput toLowerCase p v st)) \<and>
   selectedIndex (reducer (handleOnInput toLowerCase p v st)) = selectedIndex (reducer st)"
  by (simp add: handleOnInput_def dispatch_def Let_def)

lemma openCloseEffect_reducer:
  "isOpen (reducer (openCloseEffect p st)) = isOpen (reducer st) \<and>
   selectedIndex (reducer (openCloseEffect p st)) = selectedIndex (reducer st)"
  by (simp add: openCloseEffect_def dispatch_def Let_def)

lemma mount_silent:
  "mount toLowerCase p iv
     = Inr ((valuePropEffect p (openCloseEffect p (optionsEffect toLowerCase p (initialState p iv))))
              \<lparr>mounted := True\<rparr>, [])"
  by (simp add: mount_def onChangeEffect_def initialState_def afterRender_def valuePropEffect_def
      openCloseEffect_def optionsEffect_def dispatch_def Let_def)

subsection \<open>Filtering\<close>

text \<open>
  With the dropdown already open, a keystroke runs no effect, and with the default filter
  the view it leaves is the full option sequence filtered by "the lower-cased label
  includes the lower-cased text", whatever view the state held before.
\<close>

lemma inputText_open:
  assumes "isOpen (reducer st)"
  shows "inputText toLowerCase p v st = Inr (handleOnInput toLowerCase p v st, [])"
  using assms by (simp add: inputText_def afterRender_def handleOnInput_reducer)

lemma inputText_open_default:
  assumes "isOpen (reducer st)" and "filterFunction p = None"
    and "inputText toLowerCase p v st = Inr (st', ns)"
  shows "filteredOptions st'
           = filter (\<lambda>opt. stringIncludes (toLowerCase (label opt)) (toLowerCase v)) (options p)"
  using assms by (auto simp: inputText_open handleOnInput_filtered filterOptions_def)

text \<open>
  Claim C7 asks that after every keystroke the view be the options whose label contains
  the filter text. A keystroke in a closed combo box (closed by Escape, the input still
  focused) breaks this: \<open>handleOnInput\<close> stores the filtered list, \<open>[banana]\<close> for the text
  \<open>b\<close>, and dispatches \<open>open\<close> ("reopen when typing"); the dropdown having opened, the layout
  effect then runs and resets the list to all options ("Reset the filtered list"). The
  view after the keystroke is all three options.
\<close>

theorem typing_into_closed_box:
  "filteredOptions (handleOnInput asciiToLowerCase singleProps (codeUnits ''b'')
      (closedState singleProps (Single (- 1)))) = [banana] \<and>
   inputText asciiToLowerCase singleProps (codeUnits ''b'') (closedState singleProps (Single (- 1)))
     = Inr (openCloseEffect singleProps
              (handleOnInput asciiToLowerCase singleProps (codeUnits ''b'')
                 (closedState singleProps (Single (- 1)))), []) \<and>
   filteredOptions (openCloseEffect singleProps
      (handleOnInput asciiToLowerCase singleProps (codeUnits ''b'')
         (closedState singleProps (Single (- 1))))) = [apple, banana, cherry]"
  by (simp add: inputText_def afterRender_def handleOnInput_def filterOptions_def
      openCloseEffect_def dispatch_def closedState_def singleProps_def apple_def banana_def
      cherry_def asciiToLowerCase_def codeUnits_def Let_def)

subsection \<open>The change notification in single-select mode\<close>

text \<open>
  Claim C4, as stated, fails in its last part: committing a focused option does not
  always fire one \<open>onChange\<close>. In an uncontrolled single-select combo box, Enter on the
  focused first option fires \<open>onChange\<close> with its value and closes the dropdown; after
  opening it again and focusing the same option, Enter fires nothing, because
  \<open>selectedIndex\<close> does not change and the change effect is not run again.
\<close>

theorem recommit_selected_counterexample:
  "pressEnter singleProps (openState singleProps (Single (- 1)) 0)
     = Inr (openCloseEffect singleProps
              (enterKey singleProps (openState singleProps (Single (- 1)) 0)),
            [OnChange (Some 1)]) \<and>
   pressEnter singleProps
       (dispatch (Focus (Some 0))
          (openCloseEffect singleProps (dispatch Open
             (openCloseEffect singleProps
                (enterKey singleProps (openState singleProps (Single (- 1)) 0))))))
     = Inr (openCloseEffect singleProps (enterKey singleProps
              (dispatch (Focus (Some 0))
                 (openCloseEffect singleProps (dispatch Open
                    (openCloseEffect singleProps
                       (enterKey singleProps (openState singleProps (Single (- 1)) 0))))))),
            [])"
  by (simp add: pressEnter_def enterKey_def afterRender_def onChangeEffect_def dispatch_def
      openCloseEffect_def currentValue_def sameValue_def strictEq_def item_def openState_def
      singleProps_def apple_def Let_def)

text \<open>
  Claim C4, amended. For every props and initial input text, mounting calls \<open>onChange\<close>
  not at all. After mount, in single-select mode, a run of the change effect calls
  \<open>onChange\<close> at most once, with the derived value of the selected option, and only when
  that value differs from the value prop. A render in which the selected index has become
  a different one, naming an option whose value differs from the value prop, fires
  exactly one \<open>onChange\<close>, carrying that option's value; in particular Enter on a focused
  option that is not the selected one does so, closes the dropdown and selects it.
  (Committing the option that is already selected fires nothing.)
\<close>

theorem onChange_single_select:
  assumes m: "mounted st" and s: "\<not> multiple p"
  shows "(\<exists>st0. mount toLowerCase q iv = Inr (st0, [])) \<and>
         (\<exists>ns. onChangeEffect p st = Inr (st, ns) \<and>
            (ns \<noteq> [] \<longrightarrow>
               ns = [OnChange (currentValue p (selectedIndex (reducer st)))] \<and>
               \<not> sameValue (currentValue p (selectedIndex (reducer st))) (valueProp p))) \<and>
         (selectedIndex (reducer prev) = Single j \<and> selectedIndex (reducer st) = Single i \<and>
          j \<noteq> i \<and> item (options p) i = Some opt \<and> valueProp p \<noteq> Value (optValue opt) \<longrightarrow>
            afterRender p prev st
              = Inr (openCloseEffect p st, [OnChange (Some (optValue opt))])) \<and>
         (isOpen (reducer st) \<and> focusedIndex (reducer st) = i \<and>
          item (options p) i = Some opt \<and> selectedIndex (reducer st) = Single j \<and> j \<noteq> i \<and>
          valueProp p \<noteq> Value (optValue opt) \<longrightarrow>
            (\<exists>st'. pressEnter p st = Inr (st', [OnChange (Some (optValue opt))]) \<and>
                   \<not> isOpen (reducer st') \<and> selectedIndex (reducer st') = Single i))"
proof -
  have a: "\<exists>st0. mount toLowerCase q iv = Inr (st0, [])"
    by (simp add: mount_silent)
  have b: "\<exists>ns. onChangeEffect p st = Inr (st, ns) \<and>
            (ns \<noteq> [] \<longrightarrow>
               ns = [OnChange (currentValue p (selectedIndex (reducer st)))] \<and>
               \<not> sameValue (currentValue p (selectedIndex (reducer st))) (valueProp p))"
    using m s by (simp add: onChangeEffect_def Let_def)
  have nv: "\<not> sameValue (Some (optValue opt)) (valueProp p)"
    if "valueProp p \<noteq> Value (optValue opt)"
    using that by (auto simp: sameValue_def strictEq_def split: value_prop.splits)
  have i0: "i \<noteq> - 1" if "item (options p) i = Some opt"
    using that by (auto simp: item_def split: if_splits)
  have r: "afterRender p prev st' = Inr (openCloseEffect p st', [OnChange (Some (optValue opt))])"
    if "mounted st'" and "selectedIndex (reducer prev) = Single j"
      and "selectedIndex (reducer st') = Single i"
      and "j \<noteq> i" and it: "item (options p) i = Some opt"
      and v: "valueProp p \<noteq> Value (optValue opt)" for prev st'
    using s that i0 [OF it] nv [OF v]
    by (simp add: afterRender_def onChangeEffect_def currentValue_def Let_def)
  have c: "\<exists>st'. pressEnter p st = Inr (st', [OnChange (Some (optValue opt))]) \<and>
                   \<not> isOpen (reducer st') \<and> selectedIndex (reducer st') = Single i"
    if o: "isOpen (reducer st)" and f: "focusedIndex (reducer st) = i"
      and it: "item (options p) i = Some opt" and sel: "selectedIndex (reducer st) = Single j"
      and ji: "j \<noteq> i" and v: "valueProp p \<noteq> Value (optValue opt)"
  proof -
    have e: "mounted (enterKey p st) \<and> \<not> isOpen (reducer (enterKey p st)) \<and>
             selectedIndex (reducer (enterKey p st)) = Single i"
      using m s o f sel by (simp add: enterKey_def dispatch_def)
    then have "pressEnter p st
        = Inr (openCloseEffect p (enterKey p st), [OnChange (Some (optValue opt))])"
      unfolding pressEnter_def using r [of "enterKey p st" st] sel ji it v by simp
    then show ?thesis
      using e by (simp add: openCloseEffect_reducer)
  qed
  from a b r [OF m] c show ?thesis by blast
qed

theorem onChange_single_select_witness:
  "pressEnter singleProps (openState singleProps (Single 0) 1)
     = Inr (openCloseEffect singleProps (enterKey singleProps (openState singleProps (Single 0) 1)),
            [OnChange (Some 2)])"
proof -
  have "\<exists>st'. pressEnter singleProps (openState singleProps (Single 0) 1)
          = Inr (st', [OnChange (Some (optValue banana))])"
    using onChange_single_select [of "openState singleProps (Single 0) 1" singleProps
        id singleProps "[]" "openState singleProps (Single 0) 1" 0 1 banana]
    by (auto simp: openState_def singleProps_def item_def)
  then have n: "\<exists>st'. pressEnter singleProps (openState singleProps (Single 0) 1)
          = Inr (st', [OnChange (Some 2)])"
    by (simp add: banana_def)
  have "\<exists>ns. pressEnter singleProps (openState singleProps (Single 0) 1)
     = Inr (openCloseEffect singleProps (enterKey singleProps (openState singleProps (Single 0) 1)),
            ns)"
    by (simp add: pressEnter_def afterRender_def onChangeEffect_def enterKey_def dispatch_def
        openState_def singleProps_def Let_def)
  with n show ?thesis by auto
qed

subsection \<open>The change notification in multi-select mode\<close>

text \<open>
  Claim C2 asks for exactly one notification per toggle, \<open>added\<close> on selecting and
  \<open>removed\<close> on deselecting, and that two Enters on the same focused option restore the
  selection. The change effect instead calls \<open>onChange\<close> once for every option that is
  selected after the toggle, each time with \<open>added\<close> unless the option object itself
  carries a truthy \<open>isSelected\<close>, and not at all when the selection has become empty.
  Starting from an empty selection with the first option focused:
  \<^item> Enter selects it and notifies \<open>(1, added)\<close>; the selection having changed, the layout
    effect resets the focus to none;
  \<^item> a second Enter therefore finds no focused option: it closes the dropdown, the option
    stays selected and nothing is notified;
  \<^item> Enter on the option when it is selected and focused (the focus moved back to it)
    deselects it and notifies nothing, where the claim expects \<open>(1, removed)\<close>.
  Starting from the selection of the second option, Enter on the first notifies twice,
  \<open>(2, added)\<close> and \<open>(1, added)\<close>.
\<close>

theorem multiselect_enter_twice:
  "pressEnter (multiProps []) (openState (multiProps []) (Multiple []) 0)
     = Inr (openCloseEffect (multiProps [])
              (enterKey (multiProps []) (openState (multiProps []) (Multiple []) 0)),
            [OnChangeMulti 1 Added]) \<and>
   reducer (openCloseEffect (multiProps [])
              (enterKey (multiProps []) (openState (multiProps []) (Multiple []) 0)))
     = \<lparr>isOpen = True, selectedIndex = Multiple [0], focusedIndex = - 1\<rparr> \<and>
   pressEnter (multiProps [])
       (openCloseEffect (multiProps [])
          (enterKey (multiProps []) (openState (multiProps []) (Multiple []) 0)))
     = Inr (openCloseEffect (multiProps []) (dispatch Close
              (openCloseEffect (multiProps [])
                 (enterKey (multiProps []) (openState (multiProps []) (Multiple []) 0)))), []) \<and>
   reducer (openCloseEffect (multiProps []) (dispatch Close
              (openCloseEffect (multiProps [])
                 (enterKey (multiProps []) (openState (multiProps []) (Multiple []) 0)))))
     = \<lparr>isOpen = False, selectedIndex = Multiple [0], focusedIndex = - 1\<rparr> \<and>
   pressEnter (multiProps []) (openState (multiProps []) (Multiple [0]) 0)
     = Inr (openCloseEffect (multiProps [])
              (enterKey (multiProps []) (openState (multiProps []) (Multiple [0]) 0)), []) \<and>
   selectedIndex (reducer (enterKey (multiProps [])
       (openState (multiProps []) (Multiple [0]) 0))) = Multiple [] \<and>
   pressEnter (multiProps [2]) (openState (multiProps [2]) (Multiple [1]) 0)
     = Inr (openCloseEffect (multiProps [2])
              (enterKey (multiProps [2]) (openState (multiProps [2]) (Multiple [1]) 0)),
            [OnChangeMulti 2 Added, OnChangeMulti 1 Added])"
  by (simp add: pressEnter_def enterKey_def afterRender_def onChangeEffect_def dispatch_def
      openCloseEffect_def item_def openState_def multiProps_def apple_def banana_def Let_def)

subsection \<open>Reconciling with the value prop\<close>

text \<open>
  In single mode the effect stores the index that \<open>findIndex\<close> gives for the value prop,
  and \<open>findIndex\<close> is the linear search: the first index whose option passes, or \<open>-1\<close>.
\<close>

lemma findIndexFrom_first:
  "findIndexFrom i P xs =
     (if \<exists>x \<in> set xs. P x then i + int (length (takeWhile (\<lambda>x. \<not> P x) xs)) else - 1)"
  by (induction xs arbitrary: i) auto

lemma valuePropEffect_single:
  "\<not> multiple p \<Longrightarrow> selectedIndex (reducer st) = Single j \<Longrightarrow>
   selectedIndex (reducer (valuePropEffect p st))
     = Single (findIndex (\<lambda>opt. strictEq (optValue opt) (valueProp p)) (options p))"
  by (simp add: valuePropEffect_def dispatch_def)

text \<open>
  Claim C3 asks that a change of the value prop recompute the selected indices in
  multiple mode too. The effect's multiple branch is empty: a combo box mounted with the
  value \<open>[1]\<close> selects index 0, and when the value prop becomes \<open>[2]\<close> the selection stays
  at index 0, although the lookup of the new value gives index 1.
\<close>

theorem multiple_value_prop_not_reconciled:
  "selectedIndex (reducer (initialState (multiProps [1]) [])) = Multiple [0] \<and>
   valuePropChanged (multiProps [2]) ((initialState (multiProps [1]) [])\<lparr>mounted := True\<rparr>)
     = Inr ((initialState (multiProps [1]) [])\<lparr>mounted := True\<rparr>, []) \<and>
   getSelectedIndexes (multiProps [2]) = [1]"
  by (simp add: apple_def banana_def cherry_def multiProps_def initialState_def
      getSelectedIndexes_def findIndex_def valuePropChanged_def valuePropEffect_def
      afterRender_def)

subsection \<open>ArrowDown\<close>

text \<open>
  Claim C8 asks that ArrowDown without a focused option focus the first enabled option,
  and that with virtualization focus never wrap. Without a focused option the handler
  focuses the first item of the menu whether or not it is disabled: with a disabled item
  0 followed by an enabled item 1 it focuses 0. With virtualization the handler only
  checks that the focused item has a next sibling: with item 1 focused and a disabled
  item 2 last, the loop skips item 2 and wraps to item 0.
\<close>

theorem arrowDown_first_focus_disabled:
  "arrowDown 3 singleProps
     [\<lparr>dataIndex = 0, ariaDisabled = True\<rparr>, \<lparr>dataIndex = 1, ariaDisabled = False\<rparr>]
     (openState singleProps (Single (- 1)) (- 1))
   = Some (Next (openState singleProps (Single (- 1)) 0)) \<and>
   arrowDown 3 (singleProps\<lparr>enableVirtualization := True\<rparr>)
     [\<lparr>dataIndex = 0, ariaDisabled = False\<rparr>, \<lparr>dataIndex = 1, ariaDisabled = False\<rparr>,
      \<lparr>dataIndex = 2, ariaDisabled = True\<rparr>]
     (openState (singleProps\<lparr>enableVirtualization := True\<rparr>) (Single (- 1)) 1)
   = Some (Next (openState (singleProps\<lparr>enableVirtualization := True\<rparr>) (Single (- 1)) 0))"
  by (simp add: apple_def banana_def cherry_def singleProps_def openState_def initialState_def
      initExtraInfo_def getOptionId_def isWhitespace_def codeUnits_def findIndex_def strictEq_def
      dispatch_def arrowDown_def querySelectorFirst_def numeral_3_eq_3)

end
